theory Spec2Isabelle
  imports Complex_Main
begin

section \<open>Strings and JavaScript truthiness\<close>

text \<open>
  JavaScript strings are modelled as lists of 8-bit characters. A value that may be
  \<open>undefined\<close> (an unset environment variable, an absent JSON field) is an option, and
  the truthiness test \<open>if (x)\<close> on such a string holds for a present, non-empty string.
\<close>

definition truthy :: "string option \<Rightarrow> bool" where
  "truthy v = (case v of None \<Rightarrow> False | Some s \<Rightarrow> s \<noteq> [])"

text \<open>The value guarded by a truthiness test: the string, when it is present and non-empty.\<close>

definition configured :: "string option \<Rightarrow> string option" where
  "configured v = (case v of None \<Rightarrow> None | Some s \<Rightarrow> if s = [] then None else Some s)"

text \<open>\<open>a || b\<close> on an optional string with a string default.\<close>

definition orElse :: "string option \<Rightarrow> string \<Rightarrow> string" where
  "orElse v d = (case v of None \<Rightarrow> d | Some s \<Rightarrow> if s = [] then d else s)"

text \<open>\<open>s.startsWith(p)\<close>.\<close>

fun startsWith :: "string \<Rightarrow> string \<Rightarrow> bool" where
  "startsWith s [] = True"
| "startsWith [] (p # ps) = False"
| "startsWith (c # cs) (p # ps) = (c = p \<and> startsWith cs ps)"

text \<open>\<open>s.includes(p)\<close>: the pattern starts at some position of the string.\<close>

fun str_includes :: "string \<Rightarrow> string \<Rightarrow> bool" where
  "str_includes [] p = (p = [])"
| "str_includes (c # cs) p = (startsWith (c # cs) p \<or> str_includes cs p)"

section \<open>Provider selection (getAIProvider, getAIProviderWithFallback)\<close>

text \<open>
  The configuration read by the selector: the three environment variables and the
  outcome of the reachability probe \<open>axios.get(baseUrl + '/api/tags')\<close> for a given
  base URL (\<open>True\<close> when the request resolves, \<open>False\<close> when it rejects or times out).
\<close>

record provider_env =
  ollama_base_url :: "string option"
  groq_api_key :: "string option"
  gemini_api_key :: "string option"
  tags_reachable :: "string \<Rightarrow> bool"

datatype provider =
    OllamaProvider string
  | GroqProvider string
  | GeminiProvider string string
  | MockProvider

datatype gen_error = GenError string | SyntaxError string

text \<open>The first line of the message of the error raised when nothing is available.\<close>

definition no_provider_message :: string where
  "no_provider_message = ''No AI provider available. Please set up one of:''"

text \<open>\<open>OllamaProvider.isAvailable\<close>: the probe, with every failure turned into \<open>false\<close>.\<close>

definition isAvailable :: "provider_env \<Rightarrow> string \<Rightarrow> bool" where
  "isAvailable env baseUrl = tags_reachable env baseUrl"

definition getAIProvider :: "provider_env \<Rightarrow> gen_error + provider" where
  "getAIProvider env =
     (let baseUrl = orElse (ollama_base_url env) ''http://localhost:11434'' in
      if isAvailable env baseUrl then Inr (OllamaProvider baseUrl)
      else case configured (groq_api_key env) of
        Some k \<Rightarrow> Inr (GroqProvider k)
      | None \<Rightarrow>
         (case configured (gemini_api_key env) of
            Some k \<Rightarrow> Inr (GeminiProvider k ''gemini-2.0-flash-exp'')
          | None \<Rightarrow> Inl (GenError no_provider_message)))"

text \<open>\<open>getAIProviderWithFallback\<close>: any error of the strict selector yields the mock.\<close>

definition getAIProviderWithFallback :: "provider_env \<Rightarrow> provider" where
  "getAIProviderWithFallback env =
     (case getAIProvider env of Inl e \<Rightarrow> MockProvider | Inr p \<Rightarrow> p)"

section \<open>Response extraction (generateJSON, the part after generateText)\<close>

text \<open>
  White space as \<open>String.prototype.trim\<close> and the regular expression class \<open>\s\<close> see it,
  within the 8-bit range: tab, line feed, vertical tab, form feed, carriage return,
  space and no-break space.
\<close>

definition isSpace :: "char \<Rightarrow> bool" where
  "isSpace c = (c = CHR 0x09 \<or> c = CHR 0x0A \<or> c = CHR 0x0B \<or> c = CHR 0x0C \<or>
                c = CHR 0x0D \<or> c = CHR 0x20 \<or> c = CHR 0xA0)"

definition trim :: "string \<Rightarrow> string" where
  "trim s = rev (dropWhile isSpace (rev (dropWhile isSpace s)))"

definition endsWith :: "string \<Rightarrow> string \<Rightarrow> bool" where
  "endsWith s p = startsWith (rev s) (rev p)"

definition fence :: string where
  "fence = [CHR 0x60, CHR 0x60, CHR 0x60]"

definition dropNewline :: "string \<Rightarrow> string" where
  "dropNewline s = (case s of [] \<Rightarrow> [] | c # cs \<Rightarrow> if c = CHR 0x0A then cs else c # cs)"

text \<open>
  \<open>s.replace(/PAT\n?/g, '')\<close> for a literal, non-empty \<open>PAT\<close>: scanning from the left, every
  occurrence of the pattern is deleted together with a line feed that follows it, and
  the scan resumes behind the deleted text.
\<close>

function removeAll :: "string \<Rightarrow> string \<Rightarrow> string" where
  "removeAll pat [] = []"
| "removeAll pat (c # cs) =
     (if pat \<noteq> [] \<and> startsWith (c # cs) pat
      then removeAll pat (dropNewline (drop (length pat) (c # cs)))
      else c # removeAll pat cs)"
  by pat_completeness auto
termination
proof (relation "measure (\<lambda>(pat, s). length s)")
  show "wf (measure (\<lambda>(pat, s). length s))" by simp
next
  fix pat :: string and c cs
  assume "pat \<noteq> [] \<and> startsWith (c # cs) pat"
  then have "length (drop (length pat) (c # cs)) < length (c # cs)"
    by (cases pat) simp_all
  moreover have "length (dropNewline s) \<le> length s" for s
    by (cases s) (simp_all add: dropNewline_def)
  then have "length (dropNewline (drop (length pat) (c # cs)))
                   \<le> length (drop (length pat) (c # cs))" .
  ultimately show "((pat, dropNewline (drop (length pat) (c # cs))), (pat, c # cs))
                     \<in> measure (\<lambda>(pat, s). length s)"
    by simp
next
  fix pat :: string and c cs
  show "((pat, cs), (pat, c # cs)) \<in> measure (\<lambda>(pat, s). length s)" by simp
qed

text \<open>
  \<open>s.replace(/```\n?$/g, '')\<close>: a fence at the very end of the string, with or without a
  line feed behind it, is deleted. The match has to end where the string ends, so only
  these two positions can match and they exclude each other.
\<close>

definition stripEnd :: "string \<Rightarrow> string" where
  "stripEnd s =
     (if endsWith s (fence @ [CHR 0x0A]) then take (length s - 4) s
      else if endsWith s fence then take (length s - 3) s
      else s)"

text \<open>Lines 355 to 360 of generateJSON: trimming and fence stripping.\<close>

definition stripFences :: "string \<Rightarrow> string" where
  "stripFences text =
     (let jsonText = trim text in
      if startsWith jsonText (fence @ ''json'')
        then stripEnd (removeAll (fence @ ''json'') jsonText)
      else if startsWith jsonText fence
        then stripEnd (removeAll fence jsonText)
      else jsonText)"

text \<open>
  \<open>jsonText.match(/\{[\s\S]*\}/)\<close>: the match starts at the first opening brace and,
  the star being greedy over every character, ends at the last closing brace behind it.
  Without a closing brace behind the first opening brace there is no match.
\<close>

definition braceSpan :: "string \<Rightarrow> string option" where
  "braceSpan s =
     (let r = dropWhile (\<lambda>c. c \<noteq> CHR ''{'') s;
          t = rev (dropWhile (\<lambda>c. c \<noteq> CHR ''}'') (rev r))
      in if t = [] then None else Some t)"

text \<open>
  JSON values. \<open>JSON.parse\<close> is a builtin of the language, not code of the repository:
  the functions below take it as the parameter \<open>parse\<close>, \<open>None\<close> standing for the
  SyntaxError it throws.
\<close>

datatype json =
    JNull
  | JBool bool
  | JNum real
  | JStr string
  | JArr "json list"
  | JObj "(string \<times> json) list"

text \<open>Lines 362 to 371: the direct parse and the retry on the brace span.\<close>

definition parseWithRecovery ::
  "(string \<Rightarrow> json option) \<Rightarrow> string \<Rightarrow> string \<Rightarrow> gen_error + json" where
  "parseWithRecovery parse name jsonText =
     (case parse jsonText of
        Some v \<Rightarrow> Inr v
      | None \<Rightarrow>
         (case braceSpan jsonText of
            Some m \<Rightarrow> (case parse m of Some v \<Rightarrow> Inr v | None \<Rightarrow> Inl (SyntaxError m))
          | None \<Rightarrow> Inl (GenError (''Failed to parse JSON from '' @ name @ '' response''))))"

definition extractJSON ::
  "(string \<Rightarrow> json option) \<Rightarrow> string \<Rightarrow> string \<Rightarrow> gen_error + json" where
  "extractJSON parse name text = parseWithRecovery parse name (stripFences text)"

section \<open>Provider adapters\<close>

text \<open>
  What the network call of an adapter comes back with: a reply whose text field may be
  absent, a refused connection, a 401 status, or any other failure with its message.
  The network is the parameter \<open>transport\<close>: it receives the adapter, the prompt and the
  options of the call.
\<close>

datatype http_outcome =
    Replied "string option"
  | ConnRefused string
  | Unauthorized string
  | Failed string

definition json_instruction :: string where
  "json_instruction =
     [CHR 0x0A, CHR 0x0A] @ ''Return ONLY valid JSON, no markdown or extra text.''"

definition mock_text :: string where
  "mock_text = ''This is a demo response. Please set up an AI provider (Ollama, Groq, or Gemini) to get real AI responses.''"

definition mock_json :: json where
  "mock_json = JObj
     [(''executiveSummary'',
        JStr ''This is a demo response. Please set up an AI provider to get real AI responses.''),
      (''northStar'', JStr ''Demo metric''),
      (''strategicRecommendations'',
        JArr [JStr ''Demo recommendation 1'', JStr ''Demo recommendation 2''])]"

fun generateText ::
  "(provider \<Rightarrow> string \<Rightarrow> 'o \<Rightarrow> http_outcome) \<Rightarrow> provider \<Rightarrow> string \<Rightarrow> 'o \<Rightarrow> gen_error + string"
where
  "generateText transport (OllamaProvider url) prompt opts =
     (case transport (OllamaProvider url) prompt opts of
        Replied r \<Rightarrow> Inr (orElse r [])
      | ConnRefused m \<Rightarrow>
          Inl (GenError ''Ollama is not running. Please install and start Ollama: https://ollama.ai'')
      | Unauthorized m \<Rightarrow> Inl (GenError (''Ollama error: '' @ m))
      | Failed m \<Rightarrow> Inl (GenError (''Ollama error: '' @ m)))"
| "generateText transport (GroqProvider k) prompt opts =
     (case transport (GroqProvider k) prompt opts of
        Replied r \<Rightarrow> Inr (orElse r [])
      | ConnRefused m \<Rightarrow> Inl (GenError (''Groq error: '' @ m))
      | Unauthorized m \<Rightarrow>
          Inl (GenError ''Invalid Groq API key. Get a free key at https://console.groq.com'')
      | Failed m \<Rightarrow> Inl (GenError (''Groq error: '' @ m)))"
| "generateText transport (GeminiProvider k m) prompt opts =
     (case transport (GeminiProvider k m) prompt opts of
        Replied r \<Rightarrow> Inr (orElse r [])
      | ConnRefused e \<Rightarrow> Inl (GenError (''Gemini error: '' @ e))
      | Unauthorized e \<Rightarrow> Inl (GenError (''Gemini error: '' @ e))
      | Failed e \<Rightarrow> Inl (GenError (''Gemini error: '' @ e)))"
| "generateText transport MockProvider prompt opts = Inr mock_text"

fun generateJSON ::
  "(provider \<Rightarrow> string \<Rightarrow> 'o \<Rightarrow> http_outcome) \<Rightarrow> (string \<Rightarrow> json option) \<Rightarrow>
     provider \<Rightarrow> string \<Rightarrow> 'o \<Rightarrow> gen_error + json"
where
  "generateJSON transport parse (OllamaProvider url) prompt opts =
     (case generateText transport (OllamaProvider url) (prompt @ json_instruction) opts of
        Inl e \<Rightarrow> Inl e
      | Inr text \<Rightarrow> extractJSON parse ''Ollama'' text)"
| "generateJSON transport parse (GroqProvider k) prompt opts =
     (case generateText transport (GroqProvider k) (prompt @ json_instruction) opts of
        Inl e \<Rightarrow> Inl e
      | Inr text \<Rightarrow> extractJSON parse ''Groq'' text)"
| "generateJSON transport parse (GeminiProvider k m) prompt opts =
     (case generateText transport (GeminiProvider k m) prompt opts of
        Inl e \<Rightarrow> Inl e
      | Inr text \<Rightarrow> extractJSON parse ''Gemini'' text)"
| "generateJSON transport parse MockProvider prompt opts = Inr mock_json"

section \<open>A reader for the escape-free fragment of JSON\<close>

text \<open>
  The theorems below hold for whatever \<open>parse\<close> is. Where a concrete input has to be run,
  \<open>parse\<close> is this reader: JSON with objects, arrays, strings without escape sequences,
  integers and the three literals, white space allowed between tokens. Input outside
  this fragment is rejected. The recursion runs on a fuel that the length of the input
  bounds, every call consuming a character.
\<close>

definition isJsonWs :: "char \<Rightarrow> bool" where
  "isJsonWs c = (c = CHR 0x20 \<or> c = CHR 0x09 \<or> c = CHR 0x0A \<or> c = CHR 0x0D)"

definition isDigit :: "char \<Rightarrow> bool" where
  "isDigit c = (48 \<le> (of_char c :: nat) \<and> (of_char c :: nat) \<le> 57)"

definition digitVal :: "char \<Rightarrow> nat" where
  "digitVal c = of_char c - 48"

definition digitsToNat :: "string \<Rightarrow> nat" where
  "digitsToNat ds = foldl (\<lambda>acc c. 10 * acc + digitVal c) 0 ds"

definition readString :: "string \<Rightarrow> (string \<times> string) option" where
  "readString s =
     (let body = takeWhile (\<lambda>c. c \<noteq> CHR 0x22) s;
          r = dropWhile (\<lambda>c. c \<noteq> CHR 0x22) s
      in if r = [] \<or> filter (\<lambda>c. c = CHR 0x5C \<or> (of_char c :: nat) < 32) body \<noteq> []
         then None
         else Some (body, tl r))"

definition readNumber :: "string \<Rightarrow> (json \<times> string) option" where
  "readNumber s =
     (let neg = startsWith s ''-'';
          u = (if neg then tl s else s);
          ds = takeWhile isDigit u;
          r = dropWhile isDigit u
      in if ds = [] \<or> (length ds > 1 \<and> hd ds = CHR ''0'')
            \<or> startsWith r ''.'' \<or> startsWith r ''e'' \<or> startsWith r ''E'' then None
         else Some (JNum (if neg then - real (digitsToNat ds) else real (digitsToNat ds)), r))"

fun readValue :: "nat \<Rightarrow> string \<Rightarrow> (json \<times> string) option"
and readElems :: "nat \<Rightarrow> string \<Rightarrow> (json list \<times> string) option"
and readMembers :: "nat \<Rightarrow> string \<Rightarrow> ((string \<times> json) list \<times> string) option"
where
  "readValue 0 s = None"
| "readValue (Suc n) s =
     (case dropWhile isJsonWs s of
        [] \<Rightarrow> None
      | c # cs \<Rightarrow>
         if c = CHR ''{'' then
           (case dropWhile isJsonWs cs of
              [] \<Rightarrow> None
            | d # ds \<Rightarrow> if d = CHR ''}'' then Some (JObj [], ds)
                        else map_option (\<lambda>(ms, r). (JObj ms, r)) (readMembers n cs))
         else if c = CHR ''['' then
           (case dropWhile isJsonWs cs of
              [] \<Rightarrow> None
            | d # ds \<Rightarrow> if d = CHR '']'' then Some (JArr [], ds)
                        else map_option (\<lambda>(vs, r). (JArr vs, r)) (readElems n cs))
         else if c = CHR 0x22 then map_option (\<lambda>(b, r). (JStr b, r)) (readString cs)
         else if startsWith (c # cs) ''true'' then Some (JBool True, drop 4 (c # cs))
         else if startsWith (c # cs) ''false'' then Some (JBool False, drop 5 (c # cs))
         else if startsWith (c # cs) ''null'' then Some (JNull, drop 4 (c # cs))
         else readNumber (c # cs))"
| "readElems 0 s = None"
| "readElems (Suc n) s =
     (case readValue n s of
        None \<Rightarrow> None
      | Some (v, r) \<Rightarrow>
         (case dropWhile isJsonWs r of
            [] \<Rightarrow> None
          | c # cs \<Rightarrow>
             if c = CHR '']'' then Some ([v], cs)
             else if c = CHR '','' then map_option (\<lambda>(vs, r'). (v # vs, r')) (readElems n cs)
             else None))"
| "readMembers 0 s = None"
| "readMembers (Suc n) s =
     (case dropWhile isJsonWs s of
        [] \<Rightarrow> None
      | q # qs \<Rightarrow>
         if q \<noteq> CHR 0x22 then None else
         (case readString qs of
            None \<Rightarrow> None
          | Some (k, r) \<Rightarrow>
             (case dropWhile isJsonWs r of
                [] \<Rightarrow> None
              | c # cs \<Rightarrow>
                 if c \<noteq> CHR '':'' then None else
                 (case readValue n cs of
                    None \<Rightarrow> None
                  | Some (v, r') \<Rightarrow>
                     (case dropWhile isJsonWs r' of
                        [] \<Rightarrow> None
                      | e # es \<Rightarrow>
                         if e = CHR ''}'' then Some ([(k, v)], es)
                         else if e = CHR '','' then
                           map_option (\<lambda>(ms, r''). ((k, v) # ms, r'')) (readMembers n es)
                         else None)))))"

definition json_parse :: "string \<Rightarrow> json option" where
  "json_parse s =
     (case readValue (Suc (length s)) s of
        None \<Rightarrow> None
      | Some (v, r) \<Rightarrow> if dropWhile isJsonWs r = [] then Some v else None)"

section \<open>Schedule generation (generateScheduleFromStrategyAndChat)\<close>

text \<open>
  An element of the array the model returns, with the fields the server reads; every
  field may be missing. A calendar date is the number of its day, so that adding days
  is adding integers; the conversion between local time and the ISO text of a date is
  not modelled.
\<close>

record raw_item =
  day :: "int option"
  task :: "string option"
  description :: "string option"
  duration :: "string option"
  priority :: "string option"
  category :: "string option"

record plan_item = raw_item +
  date :: int
  status :: string




section \<open>Calendar events (the sync-calendar handler)\<close>

text \<open>
  The regular expression \<open>/(\d+)\s*hour/i\<close>. At a given position the digits and the white
  space are taken greedily; giving back a digit or a blank cannot help, since the
  character that follows would again be a digit or a blank. \<open>durationMatch\<close> is the
  search for the leftmost position that matches, and returns the captured digits.
\<close>

definition isHourWord :: "string \<Rightarrow> bool" where
  "isHourWord w =
     (case w of
        [c1, c2, c3, c4] \<Rightarrow>
          (c1 = CHR ''h'' \<or> c1 = CHR ''H'') \<and> (c2 = CHR ''o'' \<or> c2 = CHR ''O'') \<and>
          (c3 = CHR ''u'' \<or> c3 = CHR ''U'') \<and> (c4 = CHR ''r'' \<or> c4 = CHR ''R'')
      | _ \<Rightarrow> False)"

definition matchHourAt :: "string \<Rightarrow> string option" where
  "matchHourAt s =
     (let ds = takeWhile isDigit s;
          r = dropWhile isSpace (dropWhile isDigit s)
      in if ds \<noteq> [] \<and> isHourWord (take 4 r) then Some ds else None)"

fun durationMatch :: "string \<Rightarrow> string option" where
  "durationMatch [] = None"
| "durationMatch (c # cs) =
     (case matchHourAt (c # cs) of Some ds \<Rightarrow> Some ds | None \<Rightarrow> durationMatch cs)"

text \<open>\<open>parseInt\<close> on a string of decimal digits (exact below 2 to the 53).\<close>

definition parseInt :: "string \<Rightarrow> nat" where
  "parseInt ds = digitsToNat ds"

definition durationHours :: "string option \<Rightarrow> nat" where
  "durationHours d =
     (case configured d of
        None \<Rightarrow> 2
      | Some txt \<Rightarrow> (case durationMatch txt of None \<Rightarrow> 2 | Some ds \<Rightarrow> parseInt ds))"

text \<open>
  A time stamp is a number of hours on the local clock, hour 0 being the start of day 0.
  The fields of the event carry the prefix \<open>ev_\<close>, the names without it being those of
  the plan item.
\<close>

record calendar_event =
  ev_title :: "string option"
  ev_description :: "string option"
  ev_start :: int
  ev_end :: int
  ev_date :: int
  ev_priority :: string
  ev_category :: string

definition toCalendarEvent :: "plan_item \<Rightarrow> calendar_event" where
  "toCalendarEvent item =
     (let date9 = 24 * date item + 9;
          hours = durationHours (duration item)
      in \<lparr> ev_title = task item,
           ev_description = (if truthy (description item) then description item else task item),
           ev_start = date9,
           ev_end = date9 + int hours,
           ev_date = date item,
           ev_priority = orElse (priority item) ''medium'',
           ev_category = orElse (category item) ''Task'' \<rparr>)"

section \<open>Token store\<close>

record tokens =
  access_token :: "string option"
  refresh_token :: "string option"

text \<open>
  \<open>tokenStore\<close> is an object literal used as a dictionary: its own properties are the
  stored credentials, and a read \<open>tokenStore[key]\<close> that finds no own property continues
  in \<open>Object.prototype\<close>. What such a read returns is either a stored credential or an
  inherited member, which is truthy and has no \<open>access_token\<close>.
\<close>

type_synonym token_store = "string \<Rightarrow> tokens option"

datatype store_value = Stored tokens | Inherited

definition objectPrototypeKeys :: "string list" where
  "objectPrototypeKeys =
     [''constructor'', ''__proto__'', ''hasOwnProperty'', ''isPrototypeOf'',
      ''propertyIsEnumerable'', ''toLocaleString'', ''toString'', ''valueOf'',
      ''__defineGetter__'', ''__defineSetter__'', ''__lookupGetter__'', ''__lookupSetter__'']"

definition tokenStoreGet :: "token_store \<Rightarrow> string \<Rightarrow> store_value option" where
  "tokenStoreGet store key =
     (case store key of
        Some t \<Rightarrow> Some (Stored t)
      | None \<Rightarrow> if key \<in> set objectPrototypeKeys then Some Inherited else None)"

definition accessTokenOf :: "store_value \<Rightarrow> string option" where
  "accessTokenOf v = (case v of Stored t \<Rightarrow> configured (access_token t) | Inherited \<Rightarrow> None)"

text \<open>\<open>delete tokenStore[key]\<close> removes an own property only.\<close>

definition tokenStoreDelete :: "token_store \<Rightarrow> string \<Rightarrow> token_store" where
  "tokenStoreDelete store key = store(key := None)"

section \<open>Creating the events remotely (createEventsInGoogleCalendar)\<close>

record calendar_request =
  summary :: "string option"
  rq_description :: "string option"
  start_dateTime :: int
  start_timeZone :: string
  end_dateTime :: int
  end_timeZone :: string

text \<open>
  \<open>calendar.events.insert\<close> either resolves, with or without an \<open>htmlLink\<close> in its data,
  or rejects with a message.
\<close>

datatype insert_result = Inserted "string option" | InsertFailed string

text \<open>
  The surroundings of the handler: the OAuth constants, whether \<open>oauth2Client\<close> is
  truthy, the URL \<open>generateAuthUrl\<close> returns, an exception that \<open>setCredentials\<close> or
  \<open>google.calendar\<close> may raise for an access token, the remote insert operation (it sees
  the access token, the number of calls made before and the request) and the time zone.
\<close>

record calendar_env =
  google_client_id :: string
  google_client_secret :: string
  oauth2Client :: bool
  auth_url :: string
  setup_failure :: "string \<Rightarrow> string option"
  events_insert :: "string \<Rightarrow> nat \<Rightarrow> calendar_request \<Rightarrow> insert_result"
  time_zone :: string

record create_state =
  created :: nat
  eventLinks :: "string list"
  calls :: "calendar_request list"

definition toRequest :: "calendar_env \<Rightarrow> calendar_event \<Rightarrow> calendar_request" where
  "toRequest env event =
     \<lparr> summary = ev_title event, rq_description = ev_description event,
       start_dateTime = ev_start event, start_timeZone = time_zone env,
       end_dateTime = ev_end event, end_timeZone = time_zone env \<rparr>"

text \<open>
  One round of the loop (lines 549 to 576): the insert is attempted; a link that comes
  back is recorded and counted; a rejection is logged and the loop goes on.
\<close>

definition createStep :: "calendar_env \<Rightarrow> string \<Rightarrow> create_state \<Rightarrow> calendar_event \<Rightarrow> create_state" where
  "createStep env accessToken st event =
     (let request = toRequest env event;
          st' = st\<lparr>calls := calls st @ [request]\<rparr>
      in case events_insert env accessToken (length (calls st)) request of
           Inserted l \<Rightarrow>
             (case configured l of
                Some link \<Rightarrow> st'\<lparr>created := created st + 1, eventLinks := eventLinks st @ [link]\<rparr>
              | None \<Rightarrow> st')
         | InsertFailed m \<Rightarrow> st')"

definition createEventsInGoogleCalendar ::
  "calendar_env \<Rightarrow> calendar_event list \<Rightarrow> string \<Rightarrow> string + create_state" where
  "createEventsInGoogleCalendar env calendarEvents accessToken =
     (if \<not> oauth2Client env then Inl ''OAuth2 client not initialized''
      else case setup_failure env accessToken of
        Some m \<Rightarrow> Inl m
      | None \<Rightarrow>
          Inr (foldl (createStep env accessToken)
                 \<lparr>created = 0, eventLinks = [], calls = []\<rparr> calendarEvents))"

section \<open>Materialising a plan (sync-calendar, lines 628 to 719)\<close>

record mat_result =
  eventsCreated :: nat
  mat_eventLinks :: "string list"
  needsAuth :: bool
  mat_store :: token_store
  mat_calls :: "calendar_request list"

definition materialize ::
  "calendar_env \<Rightarrow> token_store \<Rightarrow> string option \<Rightarrow> calendar_event list \<Rightarrow> mat_result" where
  "materialize env store sessionId calendarEvents =
     (let idle = \<lparr>eventsCreated = 0, mat_eventLinks = [], needsAuth = False,
                  mat_store = store, mat_calls = []\<rparr>
      in case configured sessionId of
        None \<Rightarrow> idle\<lparr>needsAuth := True\<rparr>
      | Some sid \<Rightarrow>
         (case tokenStoreGet store sid of
            None \<Rightarrow> idle\<lparr>needsAuth := True\<rparr>
          | Some v \<Rightarrow>
             (case accessTokenOf v of
                None \<Rightarrow> idle
              | Some accessToken \<Rightarrow>
                 (case createEventsInGoogleCalendar env calendarEvents accessToken of
                    Inr result \<Rightarrow>
                      idle\<lparr>eventsCreated := created result,
                           mat_eventLinks := eventLinks result,
                           mat_calls := calls result\<rparr>
                  | Inl message \<Rightarrow>
                      if str_includes message ''invalid_grant'' \<or> str_includes message ''expired''
                      then idle\<lparr>needsAuth := True, mat_store := tokenStoreDelete store sid\<rparr>
                      else idle))))"

text \<open>The four answers of the handler once the plan exists.\<close>

datatype response =
    Created "plan_item list" "calendar_event list" nat "string list"
  | OAuthNotConfigured "plan_item list" "calendar_event list"
  | AuthRequired string "plan_item list" "calendar_event list"
  | PlanOnly "plan_item list" "calendar_event list"

definition respond ::
  "calendar_env \<Rightarrow> plan_item list \<Rightarrow> calendar_event list \<Rightarrow> mat_result \<Rightarrow> response" where
  "respond env plan calendarEvents r =
     (if eventsCreated r > 0
        then Created plan calendarEvents (eventsCreated r) (mat_eventLinks r)
      else if needsAuth r then
        (if google_client_id env = [] \<or> google_client_secret env = [] \<or> \<not> oauth2Client env
           then OAuthNotConfigured plan calendarEvents
         else AuthRequired (auth_url env) plan calendarEvents)
      else PlanOnly plan calendarEvents)"

text \<open>The fields \<open>needsAuth\<close> and \<open>data.eventsCreated\<close> of an answer, as the client reads them.\<close>

definition resp_needsAuth :: "response \<Rightarrow> bool" where
  "resp_needsAuth r = (case r of AuthRequired u p e \<Rightarrow> True | _ \<Rightarrow> False)"

definition resp_eventsCreated :: "response \<Rightarrow> nat option" where
  "resp_eventsCreated r = (case r of Created p e n ls \<Rightarrow> Some n | _ \<Rightarrow> None)"

definition syncCalendar ::
  "calendar_env \<Rightarrow> token_store \<Rightarrow> string option \<Rightarrow> plan_item list \<Rightarrow> response \<times> token_store" where
  "syncCalendar env store sessionId plan =
     (let calendarEvents = map toCalendarEvent plan;
          r = materialize env store sessionId calendarEvents
      in (respond env plan calendarEvents r, mat_store r))"

section \<open>What the remote service answered, call by call\<close>

text \<open>
  The specification counts the events whose remote creation succeeded and collects
  their links in call order. These two definitions say it in those words, for
  comparison with the loop: the outcomes of the insert calls, numbered from \<open>n\<close>, and
  the link an outcome contributes.
\<close>

definition linkOf :: "insert_result \<Rightarrow> string option" where
  "linkOf r = (case r of Inserted l \<Rightarrow> configured l | InsertFailed m \<Rightarrow> None)"

definition insertOutcomes ::
  "calendar_env \<Rightarrow> string \<Rightarrow> nat \<Rightarrow> calendar_event list \<Rightarrow> insert_result list" where
  "insertOutcomes env accessToken n calendarEvents =
     map (\<lambda>(i, e). events_insert env accessToken i (toRequest env e)) (enumerate n calendarEvents)"

section \<open>A sample run\<close>

text \<open>
  A plan of 14 items starting on day 8, a session \<open>s1\<close> with a stored access token, and
  a calendar service that rejects the fourth and the tenth insert with the message of
  an expired grant and accepts the others.
\<close>

definition sample_item :: "int \<Rightarrow> plan_item" where
  "sample_item d =
     \<lparr> day = Some (d - 7), task = Some ''Interview users'', description = None,
       duration = Some ''3 hours'', priority = Some ''high'', category = None,
       date = d, status = ''planned'' \<rparr>"

definition sample_plan :: "plan_item list" where
  "sample_plan = map sample_item [8, 9, 10, 11, 12, 13, 14, 15, 16, 17, 18, 19, 20, 21]"

definition sample_tokens :: tokens where
  "sample_tokens = \<lparr>access_token = Some ''ya29.token'', refresh_token = None\<rparr>"

definition sample_store :: token_store where
  "sample_store = (\<lambda>k. if k = ''s1'' then Some sample_tokens else None)"

definition sample_env :: calendar_env where
  "sample_env =
     \<lparr> google_client_id = ''client-id'', google_client_secret = ''client-secret'',
       oauth2Client = True,
       auth_url = ''https://accounts.google.com/o/oauth2/v2/auth'',
       setup_failure = (\<lambda>tok. None),
       events_insert = (\<lambda>tok n rq.
          if n = 3 \<or> n = 9
          then InsertFailed ''invalid_grant: Token has been expired or revoked.''
          else Inserted (Some ''https://www.google.com/calendar/event'')),
       time_zone = ''UTC'' \<rparr>"

section \<open>Provider selection: the priority order\<close>

text \<open>
  C4. \<open>getAIProvider\<close> follows a fixed priority order. When the probe of the local
  inference daemon succeeds, the Ollama adapter is returned, whatever cloud keys are
  set. When the probe fails and a Groq key is configured, the Groq adapter is returned.
  When the probe fails, no Groq key is configured and a Gemini key is, the Gemini
  adapter is returned.
\<close>

theorem getAIProvider_priority:
  "(isAvailable env (orElse (ollama_base_url env) ''http://localhost:11434'') \<longrightarrow>
      getAIProvider env =
        Inr (OllamaProvider (orElse (ollama_base_url env) ''http://localhost:11434'')))
   \<and> (\<not> isAvailable env (orElse (ollama_base_url env) ''http://localhost:11434'')
        \<and> configured (groq_api_key env) = Some gk \<longrightarrow>
      getAIProvider env = Inr (GroqProvider gk))
   \<and> (\<not> isAvailable env (orElse (ollama_base_url env) ''http://localhost:11434'')
        \<and> configured (groq_api_key env) = None
        \<and> configured (gemini_api_key env) = Some mk \<longrightarrow>
      getAIProvider env = Inr (GeminiProvider mk ''gemini-2.0-flash-exp''))"
  by (simp add: getAIProvider_def Let_def)

theorem getAIProvider_priority_witness:
  "getAIProvider \<lparr>ollama_base_url = None, groq_api_key = Some ''gsk'',
       gemini_api_key = Some ''gem'', tags_reachable = (\<lambda>u. u = ''http://localhost:11434'')\<rparr>
     = Inr (OllamaProvider ''http://localhost:11434'')
   \<and> getAIProvider \<lparr>ollama_base_url = Some ''http://10.0.0.5:11434'', groq_api_key = Some ''gsk'',
       gemini_api_key = Some ''gem'', tags_reachable = (\<lambda>u. False)\<rparr>
     = Inr (GroqProvider ''gsk'')
   \<and> getAIProvider \<lparr>ollama_base_url = None, groq_api_key = Some [],
       gemini_api_key = Some ''gem'', tags_reachable = (\<lambda>u. False)\<rparr>
     = Inr (GeminiProvider ''gem'' ''gemini-2.0-flash-exp'')"
  using
    getAIProvider_priority [of "\<lparr>ollama_base_url = None, groq_api_key = Some ''gsk'',
       gemini_api_key = Some ''gem'', tags_reachable = (\<lambda>u. u = ''http://localhost:11434'')\<rparr>"]
    getAIProvider_priority [of "\<lparr>ollama_base_url = Some ''http://10.0.0.5:11434'',
       groq_api_key = Some ''gsk'', gemini_api_key = Some ''gem'',
       tags_reachable = (\<lambda>u. False)\<rparr>" "''gsk''"]
    getAIProvider_priority [of "\<lparr>ollama_base_url = None, groq_api_key = Some [],
       gemini_api_key = Some ''gem'', tags_reachable = (\<lambda>u. False)\<rparr>" _ "''gem''"]
  by (simp add: isAvailable_def orElse_def configured_def)

text \<open>
  C5. Lenient selection never fails: it returns the adapter strict selection returns
  and, where strict selection raises, the mock. With the daemon unreachable and no key
  configured, strict selection raises the no-provider error and lenient selection
  returns the mock, whose \<open>generateText\<close> succeeds with the placeholder text for every
  prompt, every option and every state of the network.
\<close>

theorem getAIProviderWithFallback_total:
  "(\<forall>p. getAIProvider env = Inr p \<longrightarrow> getAIProviderWithFallback env = p)
   \<and> (\<forall>e. getAIProvider env = Inl e \<longrightarrow> getAIProviderWithFallback env = MockProvider)
   \<and> (\<not> isAvailable env (orElse (ollama_base_url env) ''http://localhost:11434'')
        \<and> configured (groq_api_key env) = None
        \<and> configured (gemini_api_key env) = None \<longrightarrow>
      getAIProvider env = Inl (GenError no_provider_message)
      \<and> getAIProviderWithFallback env = MockProvider
      \<and> generateText transport (getAIProviderWithFallback env) prompt opts = Inr mock_text)"
  by (simp add: getAIProviderWithFallback_def getAIProvider_def Let_def)

theorem getAIProviderWithFallback_total_witness:
  "getAIProvider \<lparr>ollama_base_url = None, groq_api_key = None, gemini_api_key = Some [],
        tags_reachable = (\<lambda>u. False)\<rparr> = Inl (GenError no_provider_message)
   \<and> getAIProviderWithFallback \<lparr>ollama_base_url = None, groq_api_key = None,
        gemini_api_key = Some [], tags_reachable = (\<lambda>u. False)\<rparr> = MockProvider
   \<and> generateText (\<lambda>p q (x::unit). Failed ''offline'')
        (getAIProviderWithFallback \<lparr>ollama_base_url = None, groq_api_key = None,
           gemini_api_key = Some [], tags_reachable = (\<lambda>u. False)\<rparr>) ''hello'' ()
       = Inr mock_text
   \<and> getAIProviderWithFallback \<lparr>ollama_base_url = None, groq_api_key = Some ''gsk'',
        gemini_api_key = None, tags_reachable = (\<lambda>u. False)\<rparr> = GroqProvider ''gsk''"
  using
    getAIProviderWithFallback_total [of "\<lparr>ollama_base_url = None, groq_api_key = None,
       gemini_api_key = Some [], tags_reachable = (\<lambda>u. False)\<rparr>"
       "\<lambda>p q (x::unit). Failed ''offline''" "''hello''" "()"]
    getAIProviderWithFallback_total [of "\<lparr>ollama_base_url = None, groq_api_key = Some ''gsk'',
       gemini_api_key = None, tags_reachable = (\<lambda>u. False)\<rparr>"
       "\<lambda>p q (x::unit). Failed ''offline''" "''hello''" "()"]
  by (simp add: isAvailable_def orElse_def configured_def getAIProvider_def)

section \<open>Adapters: generateJSON\<close>

lemmas json_reader_defs = json_parse_def isJsonWs_def isDigit_def readNumber_def readString_def
  digitsToNat_def digitVal_def

lemmas extract_defs = extractJSON_def stripFences_def trim_def isSpace_def fence_def
  parseWithRecovery_def braceSpan_def stripEnd_def endsWith_def dropNewline_def

text \<open>
  What every adapter shares: the text \<open>generateText\<close> returns goes through the extractor,
  an error of \<open>generateText\<close> is passed on, and a text from which no JSON is recovered
  ends in an error. The Ollama and Groq adapters ask for the prompt followed by the
  instruction to return only JSON.
\<close>

lemma generateJSON_ollama_groq:
  "generateJSON transport parse (OllamaProvider url) prompt opts =
     (case generateText transport (OllamaProvider url) (prompt @ json_instruction) opts of
        Inl e \<Rightarrow> Inl e | Inr text \<Rightarrow> extractJSON parse ''Ollama'' text)
   \<and> generateJSON transport parse (GroqProvider k) prompt opts =
     (case generateText transport (GroqProvider k) (prompt @ json_instruction) opts of
        Inl e \<Rightarrow> Inl e | Inr text \<Rightarrow> extractJSON parse ''Groq'' text)"
  by simp

lemma extractJSON_failure_is_error:
  assumes "parse (stripFences text) = None"
    and "\<forall>m. braceSpan (stripFences text) = Some m \<longrightarrow> parse m = None"
  shows "\<exists>e. extractJSON parse name text = Inl e"
  using assms by (auto simp: extractJSON_def parseWithRecovery_def split: option.splits)

text \<open>
  C6. Every adapter's \<open>generateJSON\<close> is claimed to call \<open>generateText\<close> on the prompt
  extended with the instruction to return only JSON. The Gemini adapter calls it on the
  bare prompt. Here the network answers with JSON only when the prompt ends with that
  instruction: the Ollama and Groq adapters obtain the object, the Gemini adapter ends
  in the parse error.
\<close>

theorem generateJSON_gemini_sends_bare_prompt:
  "generateJSON
      (\<lambda>p prompt (x::unit).
          if endsWith prompt json_instruction then Replied (Some ''{}'')
          else Replied (Some ''Sure, here is the plan''))
      json_parse (OllamaProvider ''http://localhost:11434'') ''plan'' () = Inr (JObj [])
   \<and> generateJSON
      (\<lambda>p prompt (x::unit).
          if endsWith prompt json_instruction then Replied (Some ''{}'')
          else Replied (Some ''Sure, here is the plan''))
      json_parse (GroqProvider ''gsk'') ''plan'' () = Inr (JObj [])
   \<and> generateJSON
      (\<lambda>p prompt (x::unit).
          if endsWith prompt json_instruction then Replied (Some ''{}'')
          else Replied (Some ''Sure, here is the plan''))
      json_parse (GeminiProvider ''gem'' ''gemini-2.0-flash-exp'') ''plan'' ()
     = Inl (GenError ''Failed to parse JSON from Gemini response'')"
  by (simp add: json_instruction_def orElse_def extract_defs json_reader_defs)

section \<open>Response extraction: fences and the brace span\<close>

lemma startsWith_iff: "startsWith s p \<longleftrightarrow> (\<exists>r. s = p @ r)"
  by (induction s p rule: startsWith.induct) auto

lemma startsWith_append: "startsWith s (p @ q) \<Longrightarrow> startsWith s p"
  by (auto simp: startsWith_iff)

lemma startsWith_includes: "startsWith s p \<Longrightarrow> str_includes s p"
  by (cases s; cases p) auto

lemma str_includes_mid: "str_includes (a @ p @ b) p"
proof (induction a)
  case Nil
  have "startsWith (p @ b) p" by (simp add: startsWith_iff)
  then show ?case by (simp add: startsWith_includes)
next
  case (Cons x a)
  then show ?case by simp
qed

lemma endsWith_includes: "endsWith c (p @ q) \<Longrightarrow> str_includes c p"
proof -
  assume "endsWith c (p @ q)"
  then obtain r where "rev c = rev (p @ q) @ r" by (auto simp: endsWith_def startsWith_iff)
  then have "c = rev r @ p @ q" by (metis rev_append rev_rev_ident)
  then show ?thesis using str_includes_mid [of "rev r" p q] by simp
qed

lemma dropWhile_around:
  "t \<noteq> [] \<Longrightarrow> \<not> P (hd t) \<Longrightarrow> dropWhile P (pre @ t @ post) = dropWhile P pre @ t @ post"
  by (induction pre) (auto simp: neq_Nil_conv)

lemma trim_around:
  assumes "t \<noteq> []" "\<not> isSpace (hd t)" "\<not> isSpace (last t)"
  shows "trim (pre @ t @ post) = dropWhile isSpace pre @ t @ rev (dropWhile isSpace (rev post))"
proof -
  have a: "dropWhile isSpace (pre @ t @ post) = dropWhile isSpace pre @ t @ post"
    using assms by (simp add: dropWhile_around)
  have "rev (dropWhile isSpace pre @ t @ post) = rev post @ rev t @ rev (dropWhile isSpace pre)"
    by simp
  moreover have "dropWhile isSpace (rev post @ rev t @ rev (dropWhile isSpace pre))
        = dropWhile isSpace (rev post) @ rev t @ rev (dropWhile isSpace pre)"
    using assms by (intro dropWhile_around) (simp_all add: hd_rev)
  ultimately show ?thesis by (simp add: trim_def a)
qed

lemma trim_spaces_around:
  assumes "t \<noteq> []" "\<not> isSpace (hd t)" "\<not> isSpace (last t)"
    "\<forall>x \<in> set ws1. isSpace x" "\<forall>x \<in> set ws2. isSpace x"
  shows "trim (ws1 @ t @ ws2) = t"
proof -
  have a: "dropWhile isSpace ws1 = []" using assms(4) by simp
  have b: "dropWhile isSpace (rev ws2) = []" using assms(5) by simp
  show ?thesis unfolding trim_around [OF assms(1-3), of ws1 ws2] a b by simp
qed

lemma braceSpan_around:
  assumes "CHR ''{'' \<notin> set pre" "CHR ''}'' \<notin> set post"
  shows "braceSpan (pre @ CHR ''{'' # mid @ CHR ''}'' # post) = Some (CHR ''{'' # mid @ [CHR ''}''])"
proof -
  have a: "dropWhile (\<lambda>c. c \<noteq> CHR ''{'') (pre @ CHR ''{'' # mid @ CHR ''}'' # post)
             = CHR ''{'' # mid @ CHR ''}'' # post"
    using assms(1) by (subst dropWhile_append2) auto
  have b: "dropWhile (\<lambda>c. c \<noteq> CHR ''}'') (rev post @ CHR ''}'' # rev mid @ [CHR ''{''])
             = CHR ''}'' # rev mid @ [CHR ''{'']"
    using assms(2) by (subst dropWhile_append2) auto
  show ?thesis by (simp add: braceSpan_def Let_def a b)
qed

lemma braceSpan_none:
  assumes "CHR ''{'' \<notin> set s"
  shows "braceSpan s = None"
proof -
  have h: "dropWhile (\<lambda>c. c \<noteq> CHR ''{'') s = []" using assms by auto
  show ?thesis by (simp add: braceSpan_def Let_def h)
qed

lemma removeAll_fence_tail: "\<not> str_includes c fence \<Longrightarrow> removeAll fence (c @ fence) = c"
proof (induction c)
  case Nil
  show ?case by (simp add: fence_def dropNewline_def)
next
  case (Cons x xs)
  then have ih: "removeAll fence (xs @ fence) = xs" and ns: "\<not> startsWith (x # xs) fence"
    by simp_all
  show ?case
  proof (cases "startsWith (x # xs @ fence) fence")
    case False
    then show ?thesis using ih by simp
  next
    case True
    then show ?thesis using ns
      by (cases xs; cases "tl xs") (auto simp: fence_def dropNewline_def)
  qed
qed

lemma removeAll_json_tail:
  "\<not> str_includes c fence \<Longrightarrow> removeAll (fence @ ''json'') (c @ fence) = c @ fence"
proof (induction c)
  case Nil
  show ?case by (simp add: fence_def)
next
  case (Cons x xs)
  then have ih: "removeAll (fence @ ''json'') (xs @ fence) = xs @ fence"
    and ns: "\<not> startsWith (x # xs) fence"
    by simp_all
  have "\<not> startsWith (x # xs @ fence) (fence @ ''json'')"
    using ns by (cases xs; cases "tl xs") (auto simp: fence_def)
  then show ?case using ih by simp
qed

lemma stripEnd_fence: "stripEnd (c @ fence) = c"
  by (simp add: stripEnd_def endsWith_def fence_def)

lemma stripEnd_no_fence: "\<not> str_includes c fence \<Longrightarrow> stripEnd c = c"
  using endsWith_includes [of c fence "[CHR 0x0A]"] endsWith_includes [of c fence "[]"]
  by (auto simp: stripEnd_def)

lemma not_space_backtick: "\<not> isSpace (CHR 0x60)"
  by (simp add: isSpace_def)

lemma stripFences_unfenced: "\<not> startsWith (trim s) fence \<Longrightarrow> stripFences s = trim s"
  by (auto simp: stripFences_def Let_def dest: startsWith_append)

lemma stripFences_json_fenced:
  assumes "\<not> str_includes c fence" "\<forall>x \<in> set ws1. isSpace x" "\<forall>x \<in> set ws2. isSpace x"
  shows "stripFences (ws1 @ (fence @ ''json'' @ [CHR 0x0A] @ c @ fence) @ ws2) = c"
proof -
  let ?t = "fence @ ''json'' @ [CHR 0x0A] @ c @ fence"
  have t: "trim (ws1 @ ?t @ ws2) = ?t"
    using assms(2,3) by (intro trim_spaces_around) (simp_all add: fence_def isSpace_def)
  have s: "startsWith ?t (fence @ ''json'')" by (simp add: startsWith_iff)
  have r: "removeAll (fence @ ''json'') ?t = removeAll (fence @ ''json'') (c @ fence)"
    by (simp add: fence_def dropNewline_def)
  show ?thesis
    unfolding stripFences_def Let_def t
    using s by (simp only: if_True r removeAll_json_tail [OF assms(1)] stripEnd_fence)
qed

lemma stripFences_plain_fenced:
  assumes "\<not> str_includes c fence" "\<forall>x \<in> set ws1. isSpace x" "\<forall>x \<in> set ws2. isSpace x"
  shows "stripFences (ws1 @ (fence @ [CHR 0x0A] @ c @ fence) @ ws2) = c"
proof -
  let ?t = "fence @ [CHR 0x0A] @ c @ fence"
  have t: "trim (ws1 @ ?t @ ws2) = ?t"
    using assms(2,3) by (intro trim_spaces_around) (simp_all add: fence_def isSpace_def)
  have n: "\<not> startsWith ?t (fence @ ''json'')" by (simp add: fence_def)
  have s: "startsWith ?t fence" by (simp add: startsWith_iff)
  have r: "removeAll fence ?t = removeAll fence (c @ fence)"
    by (simp add: fence_def dropNewline_def)
  show ?thesis
    unfolding stripFences_def Let_def t
    using n s
    by (simp only: if_True if_False r removeAll_fence_tail [OF assms(1)]
          stripEnd_no_fence [OF assms(1)])
qed

text \<open>
  C3, amended. Take a content that contains no fence and wrap it in a fenced block
  whose opening line is the fence followed by \<open>json\<close>, or the fence alone, with any white
  space around the block. Then \<open>extractJSON\<close> returns what the direct parse, with its
  retry, returns on the content; in particular the parsed content when the content
  parses.
\<close>

theorem fenced_equals_unfenced:
  assumes "\<not> str_includes c fence" "\<forall>x \<in> set ws1. isSpace x" "\<forall>x \<in> set ws2. isSpace x"
  shows "extractJSON parse name (ws1 @ (fence @ ''json'' @ [CHR 0x0A] @ c @ fence) @ ws2)
           = parseWithRecovery parse name c
     \<and> extractJSON parse name (ws1 @ (fence @ [CHR 0x0A] @ c @ fence) @ ws2)
           = parseWithRecovery parse name c
     \<and> (parse c = Some v \<longrightarrow>
          extractJSON parse name (ws1 @ (fence @ ''json'' @ [CHR 0x0A] @ c @ fence) @ ws2) = Inr v
          \<and> extractJSON parse name (ws1 @ (fence @ [CHR 0x0A] @ c @ fence) @ ws2) = Inr v)"
  unfolding extractJSON_def stripFences_json_fenced [OF assms] stripFences_plain_fenced [OF assms]
  by (simp add: parseWithRecovery_def)

theorem fenced_equals_unfenced_witness:
  \<open>extractJSON json_parse ''Ollama''
      ([] @ (fence @ ''json'' @ [CHR 0x0A] @ (''{"a":1}'' @ [CHR 0x0A]) @ fence) @ [CHR 0x0A])
     = Inr (JObj [(''a'', JNum 1)])
   \<and> extractJSON json_parse ''Ollama''
      ([] @ (fence @ [CHR 0x0A] @ (''{"a":1}'' @ [CHR 0x0A]) @ fence) @ [CHR 0x0A])
     = Inr (JObj [(''a'', JNum 1)])\<close>
proof -
  have h1: \<open>\<not> str_includes (''{"a":1}'' @ [CHR 0x0A]) fence\<close> by (simp add: fence_def)
  have h2: "\<forall>x \<in> set []. isSpace x" by simp
  have h3: "\<forall>x \<in> set [CHR 0x0A]. isSpace x" by (simp add: isSpace_def)
  have p: \<open>json_parse (''{"a":1}'' @ [CHR 0x0A]) = Some (JObj [(''a'', JNum 1)])\<close>
    by (simp add: json_reader_defs)
  show ?thesis
    using fenced_equals_unfenced [OF h1 h2 h3, where parse = json_parse
        and v = "JObj [(''a'', JNum 1)]" and name = "''Ollama''"] p
    by blast
qed

text \<open>
  C3, as stated: for every fenced text, with or without a language tag, the result is
  the parse of the unwrapped content. A fence inside the content is deleted with the
  others, so a string holding three backquotes comes back empty; and with another tag
  than \<open>json\<close> the tag stays in the text, so a fenced array is lost.
\<close>

theorem fence_stripping_counterexample:
  \<open>extractJSON json_parse ''Gemini''
      (fence @ [CHR 0x0A] @ (''{"a":"```"}'' @ [CHR 0x0A]) @ fence)
     = Inr (JObj [(''a'', JStr [])])
   \<and> json_parse (''{"a":"```"}'' @ [CHR 0x0A]) = Some (JObj [(''a'', JStr ''```'')])
   \<and> extractJSON json_parse ''Gemini''
      (fence @ ''js'' @ [CHR 0x0A] @ (''[1]'' @ [CHR 0x0A]) @ fence)
     = Inl (GenError ''Failed to parse JSON from Gemini response'')
   \<and> json_parse (''[1]'' @ [CHR 0x0A]) = Some (JArr [JNum 1])\<close>
  by (simp add: extractJSON_def stripFences_def trim_def isSpace_def fence_def
        parseWithRecovery_def braceSpan_def stripEnd_def endsWith_def dropNewline_def
        json_reader_defs)

text \<open>
  C2, amended. When the direct parse of the trimmed and unfenced text fails,
  \<open>extractJSON\<close> takes the span from the first opening brace to the last closing brace of
  that text (one greedy match: braces are not balanced and brackets are not looked for)
  and returns the span parsed, or the error of that parse; without such a span it
  raises the failed-to-parse error. In particular, for an unfenced text made of a span
  in braces that parses, with no opening brace before it and no closing brace behind
  it, the span parsed is returned; and a text without an opening brace, a bare array in
  prose included, ends in the error.
\<close>

theorem extractJSON_brace_span:
  "(parse (stripFences raw) = None \<longrightarrow>
      extractJSON parse name raw =
        (case braceSpan (stripFences raw) of
           None \<Rightarrow> Inl (GenError (''Failed to parse JSON from '' @ name @ '' response''))
         | Some m \<Rightarrow> (case parse m of None \<Rightarrow> Inl (SyntaxError m) | Some v \<Rightarrow> Inr v)))
   \<and> (CHR ''{'' \<notin> set pre \<and> CHR ''}'' \<notin> set post \<longrightarrow>
        braceSpan (pre @ CHR ''{'' # mid @ CHR ''}'' # post) = Some (CHR ''{'' # mid @ [CHR ''}'']))
   \<and> (CHR ''{'' \<notin> set pre \<and> CHR ''}'' \<notin> set post
        \<and> \<not> startsWith (trim (pre @ (CHR ''{'' # mid @ [CHR ''}'']) @ post)) fence
        \<and> parse (trim (pre @ (CHR ''{'' # mid @ [CHR ''}'']) @ post)) = None
        \<and> parse (CHR ''{'' # mid @ [CHR ''}'']) = Some v \<longrightarrow>
        extractJSON parse name (pre @ (CHR ''{'' # mid @ [CHR ''}'']) @ post) = Inr v)
   \<and> (CHR ''{'' \<notin> set (stripFences raw) \<and> parse (stripFences raw) = None \<longrightarrow>
        extractJSON parse name raw
          = Inl (GenError (''Failed to parse JSON from '' @ name @ '' response'')))"
proof -
  have a: "parse (stripFences raw) = None \<Longrightarrow>
      extractJSON parse name raw =
        (case braceSpan (stripFences raw) of
           None \<Rightarrow> Inl (GenError (''Failed to parse JSON from '' @ name @ '' response''))
         | Some m \<Rightarrow> (case parse m of None \<Rightarrow> Inl (SyntaxError m) | Some v \<Rightarrow> Inr v))"
    by (simp add: extractJSON_def parseWithRecovery_def)
  have b: "braceSpan (pre @ CHR ''{'' # mid @ CHR ''}'' # post) = Some (CHR ''{'' # mid @ [CHR ''}''])"
    if "CHR ''{'' \<notin> set pre" "CHR ''}'' \<notin> set post" for pre post
    using that by (rule braceSpan_around)
  have c: "extractJSON parse name (pre @ (CHR ''{'' # mid @ [CHR ''}'']) @ post) = Inr v"
    if h: "CHR ''{'' \<notin> set pre" "CHR ''}'' \<notin> set post"
       "\<not> startsWith (trim (pre @ (CHR ''{'' # mid @ [CHR ''}'']) @ post)) fence"
       "parse (trim (pre @ (CHR ''{'' # mid @ [CHR ''}'']) @ post)) = None"
       "parse (CHR ''{'' # mid @ [CHR ''}'']) = Some v"
  proof -
    let ?span = "CHR ''{'' # mid @ [CHR ''}'']"
    let ?pre = "dropWhile isSpace pre" and ?post = "rev (dropWhile isSpace (rev post))"
    have t: "trim (pre @ ?span @ post) = ?pre @ ?span @ ?post"
      by (intro trim_around) (simp_all add: isSpace_def)
    have sp: "set ?pre \<subseteq> set pre" by (simp add: set_dropWhileD subsetI)
    have sq: "set ?post \<subseteq> set post" using set_dropWhileD [of _ isSpace "rev post"] by auto
    have sf: "stripFences (pre @ ?span @ post) = ?pre @ ?span @ ?post"
      by (simp only: stripFences_unfenced [OF h(3)] t)
    have bs: "braceSpan (?pre @ ?span @ ?post) = Some ?span"
      using b [of ?pre ?post] h(1,2) sp sq by auto
    show ?thesis
      using h(4,5) unfolding extractJSON_def parseWithRecovery_def sf t bs by simp
  qed
  have d: "extractJSON parse name raw
          = Inl (GenError (''Failed to parse JSON from '' @ name @ '' response''))"
    if "CHR ''{'' \<notin> set (stripFences raw)" "parse (stripFences raw) = None"
    using that by (simp add: extractJSON_def parseWithRecovery_def braceSpan_none)
  show ?thesis using a b c d by blast
qed

theorem extractJSON_brace_span_witness:
  \<open>extractJSON json_parse ''Groq'' ''Here is the plan: {"a":1} Hope it helps.''
     = Inr (JObj [(''a'', JNum 1)])
   \<and> extractJSON json_parse ''Groq'' ''Sorry, no plan today.''
     = Inl (GenError ''Failed to parse JSON from Groq response'')\<close>
proof -
  have p1: \<open>json_parse (trim (''Here is the plan: '' @ (CHR ''{'' # ''"a":1'' @ [CHR ''}'']) @ '' Hope it helps.'')) = None\<close>
    by (simp add: trim_def isSpace_def json_reader_defs)
  have p2: \<open>json_parse (CHR ''{'' # ''"a":1'' @ [CHR ''}'']) = Some (JObj [(''a'', JNum 1)])\<close>
    by (simp add: json_reader_defs)
  have p3: \<open>\<not> startsWith (trim (''Here is the plan: '' @ (CHR ''{'' # ''"a":1'' @ [CHR ''}'']) @ '' Hope it helps.'')) fence\<close>
    by (simp add: trim_def isSpace_def fence_def)
  have q1: "stripFences ''Sorry, no plan today.'' = ''Sorry, no plan today.''"
    by (simp add: stripFences_def trim_def isSpace_def fence_def)
  have q2: "json_parse ''Sorry, no plan today.'' = None" by (simp add: json_reader_defs)
  note t1 = extractJSON_brace_span [where parse = json_parse and pre = "''Here is the plan: ''"
      and post = "'' Hope it helps.''" and mid = \<open>''"a":1''\<close>
      and v = "JObj [(''a'', JNum 1)]" and name = "''Groq''"]
  note t2 = extractJSON_brace_span [where parse = json_parse and raw = "''Sorry, no plan today.''"
      and name = "''Groq''"]
  from t1 p1 p2 p3 have r1: \<open>extractJSON json_parse ''Groq''
      (''Here is the plan: '' @ (CHR ''{'' # ''"a":1'' @ [CHR ''}'']) @ '' Hope it helps.'')
     = Inr (JObj [(''a'', JNum 1)])\<close>
    by simp
  have q: "CHR ''{'' \<notin> set (stripFences ''Sorry, no plan today.'')
           \<and> json_parse (stripFences ''Sorry, no plan today.'') = None"
    by (simp add: q1 q2)
  from t2 q have "extractJSON json_parse ''Groq'' ''Sorry, no plan today.''
     = Inl (GenError (''Failed to parse JSON from '' @ ''Groq'' @ '' response''))"
    by blast
  then have r2: "extractJSON json_parse ''Groq'' ''Sorry, no plan today.''
     = Inl (GenError ''Failed to parse JSON from Groq response'')"
    by simp
  from r1 r2 show ?thesis by simp
qed

text \<open>
  C2, as stated: the first balanced span in braces or brackets is found and parsed. An
  array in prose is not recovered; of two objects in a text the span runs from the
  start of the first to the end of the second and does not parse; and for an array of
  one object the object is returned in place of the array.
\<close>

theorem brace_span_counterexample:
  \<open>extractJSON json_parse ''Ollama'' ''Here is the list: [1,2]''
     = Inl (GenError ''Failed to parse JSON from Ollama response'')
   \<and> json_parse ''[1,2]'' = Some (JArr [JNum 1, JNum 2])
   \<and> extractJSON json_parse ''Ollama'' ''First {"a":1} then {"b":2}''
     = Inl (SyntaxError ''{"a":1} then {"b":2}'')
   \<and> json_parse ''{"a":1}'' = Some (JObj [(''a'', JNum 1)])
   \<and> extractJSON json_parse ''Ollama'' ''Items: [{"a":1}]''
     = Inr (JObj [(''a'', JNum 1)])
   \<and> json_parse ''[{"a":1}]'' = Some (JArr [JObj [(''a'', JNum 1)]])\<close>
  by (simp add: extractJSON_def stripFences_def trim_def isSpace_def fence_def
        parseWithRecovery_def braceSpan_def json_reader_defs)

section \<open>Schedule generation: dates\<close>






section \<open>Calendar events: the duration\<close>







section \<open>Materialising a plan: counts, authorisation, token store\<close>

text \<open>
  The loop against the outcomes of the calls: one round adds the link its call returned,
  if any, and the whole loop adds the links of all calls, in call order.
\<close>

lemma createStep_eq:
  "createStep env tok st e =
     \<lparr>created = created st
        + length (List.map_filter linkOf [events_insert env tok (length (calls st)) (toRequest env e)]),
      eventLinks = eventLinks st
        @ List.map_filter linkOf [events_insert env tok (length (calls st)) (toRequest env e)],
      calls = calls st @ [toRequest env e]\<rparr>"
  by (cases "events_insert env tok (length (calls st)) (toRequest env e)")
     (auto simp: createStep_def Let_def linkOf_def List.map_filter_simps split: option.splits)

lemma foldl_createStep:
  "foldl (createStep env tok) st evs =
     \<lparr>created = created st
        + length (List.map_filter linkOf (insertOutcomes env tok (length (calls st)) evs)),
      eventLinks = eventLinks st
        @ List.map_filter linkOf (insertOutcomes env tok (length (calls st)) evs),
      calls = calls st @ map (toRequest env) evs\<rparr>"
proof (induction evs arbitrary: st)
  case Nil
  show ?case by (simp add: insertOutcomes_def List.map_filter_simps)
next
  case (Cons e evs)
  have "foldl (createStep env tok) st (e # evs)
          = foldl (createStep env tok) (createStep env tok st e) evs" by simp
  also have "\<dots> = \<lparr>created = created (createStep env tok st e)
        + length (List.map_filter linkOf
            (insertOutcomes env tok (length (calls (createStep env tok st e))) evs)),
      eventLinks = eventLinks (createStep env tok st e)
        @ List.map_filter linkOf
            (insertOutcomes env tok (length (calls (createStep env tok st e))) evs),
      calls = calls (createStep env tok st e) @ map (toRequest env) evs\<rparr>"
    by (rule Cons.IH)
  also have "\<dots> = \<lparr>created = created st
        + length (List.map_filter linkOf (insertOutcomes env tok (length (calls st)) (e # evs))),
      eventLinks = eventLinks st
        @ List.map_filter linkOf (insertOutcomes env tok (length (calls st)) (e # evs)),
      calls = calls st @ map (toRequest env) (e # evs)\<rparr>"
    by (simp add: createStep_eq insertOutcomes_def List.map_filter_simps split: option.splits)
  finally show ?case .
qed

lemma materialize_with_token:
  assumes "configured sessionId = Some sid" "store sid = Some t"
    "configured (access_token t) = Some tok" "oauth2Client env" "setup_failure env tok = None"
  shows "materialize env store sessionId evs =
     \<lparr>eventsCreated = length (List.map_filter linkOf (insertOutcomes env tok 0 evs)),
      mat_eventLinks = List.map_filter linkOf (insertOutcomes env tok 0 evs),
      needsAuth = False, mat_store = store, mat_calls = map (toRequest env) evs\<rparr>"
  using assms
  by (simp add: materialize_def Let_def tokenStoreGet_def accessTokenOf_def
        createEventsInGoogleCalendar_def foldl_createStep)

lemma materialize_without_credential:
  assumes "configured sessionId = None
           \<or> (\<exists>sid. configured sessionId = Some sid \<and> store sid = None
                 \<and> sid \<notin> set objectPrototypeKeys)"
  shows "materialize env store sessionId evs =
     \<lparr>eventsCreated = 0, mat_eventLinks = [], needsAuth = True, mat_store = store,
      mat_calls = []\<rparr>"
  using assms by (auto simp: materialize_def Let_def tokenStoreGet_def)

lemmas sample_defs = sample_plan_def sample_item_def sample_env_def sample_store_def
  sample_tokens_def

lemma sample_events:
  "map toCalendarEvent sample_plan =
     map (\<lambda>d. \<lparr>ev_title = Some ''Interview users'', ev_description = Some ''Interview users'',
               ev_start = 24 * d + 9, ev_end = 24 * d + 12, ev_date = d,
               ev_priority = ''high'', ev_category = ''Task''\<rparr>)
       [8, 9, 10, 11, 12, 13, 14, 15, 16, 17, 18, 19, 20, 21]"
  by (simp add: sample_defs toCalendarEvent_def durationHours_def configured_def truthy_def
        orElse_def matchHourAt_def isDigit_def isSpace_def isHourWord_def parseInt_def
        digitsToNat_def digitVal_def)

lemma sample_links:
  "List.map_filter linkOf
     (insertOutcomes sample_env ''ya29.token'' 0 (map toCalendarEvent sample_plan))
   = replicate 12 ''https://www.google.com/calendar/event''"
  by (simp add: sample_events insertOutcomes_def sample_env_def linkOf_def configured_def
        List.map_filter_simps eval_nat_numeral)

lemma sample_materialize:
  "materialize sample_env sample_store (Some ''s1'') (map toCalendarEvent sample_plan) =
     \<lparr>eventsCreated = 12,
      mat_eventLinks = replicate 12 ''https://www.google.com/calendar/event'',
      needsAuth = False, mat_store = sample_store,
      mat_calls = map (toRequest sample_env) (map toCalendarEvent sample_plan)\<rparr>"
proof -
  have h1: "configured (Some ''s1'') = Some ''s1''" by (simp add: configured_def)
  have h2: "sample_store ''s1'' = Some sample_tokens" by (simp add: sample_store_def)
  have h3: "configured (access_token sample_tokens) = Some ''ya29.token''"
    by (simp add: sample_tokens_def configured_def)
  have h4: "oauth2Client sample_env" by (simp add: sample_env_def)
  have h5: "setup_failure sample_env ''ya29.token'' = None" by (simp add: sample_env_def)
  show ?thesis
    by (simp add: materialize_with_token [where store = sample_store and sid = "''s1''",
          OF h1 h2 h3 h4 h5] sample_links)
qed




text \<open>
  C8. A session without a stored credential is claimed to get \<open>needsAuth = true\<close>, no
  created event and no remote call. For a session identifier that names a member of
  \<open>Object.prototype\<close>, such as \<open>constructor\<close>, the read of the empty token store is
  truthy: no call is made and nothing is created, but \<open>needsAuth\<close> stays false and the
  handler answers with the plain plan. The lemma \<open>materialize_without_credential\<close> above
  is the claim for every other session identifier.
\<close>

theorem inherited_key_passes_for_credential:
  "\<not> needsAuth (materialize sample_env Map.empty (Some ''constructor'')
        (map toCalendarEvent sample_plan))
   \<and> eventsCreated (materialize sample_env Map.empty (Some ''constructor'')
        (map toCalendarEvent sample_plan)) = 0
   \<and> mat_calls (materialize sample_env Map.empty (Some ''constructor'')
        (map toCalendarEvent sample_plan)) = []
   \<and> fst (syncCalendar sample_env Map.empty (Some ''constructor'') sample_plan)
       = PlanOnly sample_plan (map toCalendarEvent sample_plan)"
  by (simp add: syncCalendar_def Let_def materialize_def configured_def tokenStoreGet_def
        objectPrototypeKeys_def accessTokenOf_def respond_def)

text \<open>
  C10. A result of \<open>materialize\<close> never has both a positive count of created events and
  \<open>needsAuth\<close>. An answer that reports a count reports a positive one and carries no
  \<open>needsAuth\<close>; whenever an event was created the answer is that success answer; and an
  answer with \<open>needsAuth\<close> reports no count, the count being zero.
\<close>

theorem created_excludes_needsAuth:
  "\<not> (0 < eventsCreated (materialize env store sessionId evs)
        \<and> needsAuth (materialize env store sessionId evs))
   \<and> (\<forall>n. resp_eventsCreated (fst (syncCalendar env store sessionId plan)) = Some n \<longrightarrow>
          0 < n \<and> \<not> resp_needsAuth (fst (syncCalendar env store sessionId plan)))
   \<and> (0 < eventsCreated (materialize env store sessionId (map toCalendarEvent plan)) \<longrightarrow>
        fst (syncCalendar env store sessionId plan)
          = Created plan (map toCalendarEvent plan)
              (eventsCreated (materialize env store sessionId (map toCalendarEvent plan)))
              (mat_eventLinks (materialize env store sessionId (map toCalendarEvent plan))))
   \<and> (resp_needsAuth (fst (syncCalendar env store sessionId plan)) \<longrightarrow>
        eventsCreated (materialize env store sessionId (map toCalendarEvent plan)) = 0
        \<and> needsAuth (materialize env store sessionId (map toCalendarEvent plan))
        \<and> resp_eventsCreated (fst (syncCalendar env store sessionId plan)) = None)"
proof -
  have x: "\<not> (0 < eventsCreated (materialize env store sessionId evs)
              \<and> needsAuth (materialize env store sessionId evs))" for evs
    by (simp add: materialize_def Let_def split: option.splits sum.splits)
  show ?thesis
    using x [of evs] x [of "map toCalendarEvent plan"]
    by (auto simp: syncCalendar_def Let_def respond_def resp_needsAuth_def
          resp_eventsCreated_def split: if_splits)
qed

theorem created_excludes_needsAuth_witness:
  "fst (syncCalendar sample_env sample_store (Some ''s1'') sample_plan)
     = Created sample_plan (map toCalendarEvent sample_plan) 12
         (replicate 12 ''https://www.google.com/calendar/event'')
   \<and> \<not> resp_needsAuth (fst (syncCalendar sample_env sample_store (Some ''s1'') sample_plan))
   \<and> resp_needsAuth (fst (syncCalendar sample_env sample_store None sample_plan))
   \<and> eventsCreated (materialize sample_env sample_store None (map toCalendarEvent sample_plan)) = 0
   \<and> resp_eventsCreated (fst (syncCalendar sample_env sample_store None sample_plan)) = None"
proof -
  have a: "resp_eventsCreated (fst (syncCalendar sample_env sample_store (Some ''s1'') sample_plan))
            = Some 12"
    by (simp add: syncCalendar_def Let_def sample_materialize respond_def resp_eventsCreated_def)
  have b: "resp_needsAuth (fst (syncCalendar sample_env sample_store None sample_plan))"
    by (simp add: syncCalendar_def Let_def materialize_def configured_def respond_def
          resp_needsAuth_def sample_env_def)
  have c: "fst (syncCalendar sample_env sample_store (Some ''s1'') sample_plan)
     = Created sample_plan (map toCalendarEvent sample_plan) 12
         (replicate 12 ''https://www.google.com/calendar/event'')"
    by (simp add: syncCalendar_def Let_def sample_materialize respond_def)
  note t1 = created_excludes_needsAuth [of sample_env sample_store "Some ''s1''"
            "map toCalendarEvent sample_plan" sample_plan]
  note t2 = created_excludes_needsAuth [of sample_env sample_store None
            "map toCalendarEvent sample_plan" sample_plan]
  from t1 a have d: "\<not> resp_needsAuth
      (fst (syncCalendar sample_env sample_store (Some ''s1'') sample_plan))"
    by blast
  from t2 b have e: "eventsCreated (materialize sample_env sample_store None
        (map toCalendarEvent sample_plan)) = 0
      \<and> resp_eventsCreated (fst (syncCalendar sample_env sample_store None sample_plan)) = None"
    by blast
  from b c d e show ?thesis by blast
qed

end
